theory Spec2Isabelle
  imports Complex_Main
begin

section \<open>Values, dates and data frames\<close>

text \<open>
  The sales dashboard consists of a synchronisation script
  (\<^verbatim>\<open>google_sheets_to_postgres_sync.py\<close>) that copies a Google sheet into the
  PostgreSQL table \<^verbatim>\<open>sales_data\<close>, and of a Streamlit application
  (\<^verbatim>\<open>app_v1.py\<close>) that loads that table, derives further columns and filters
  and aggregates them. Both work on pandas data frames.

  A calendar date is compared as Python's \<^verbatim>\<open>datetime.date\<close> is: by year, then
  month, then day.
\<close>

datatype date = Date (year: int) (month: nat) (day: nat)

fun date_le :: "date \<Rightarrow> date \<Rightarrow> bool" where
  "date_le (Date y1 m1 d1) (Date y2 m2 d2) =
     (y1 < y2 \<or> (y1 = y2 \<and> (m1 < m2 \<or> (m1 = m2 \<and> d1 \<le> d2))))"

text \<open>
  One entry of a data frame, of a sheet record or of a database tuple. \<open>PNone\<close> is
  Python's \<^verbatim>\<open>None\<close> (SQL \<^verbatim>\<open>NULL\<close>), \<open>NaN\<close> stands for pandas' missing values
  \<^verbatim>\<open>NaN\<close> and \<^verbatim>\<open>NaT\<close>, \<open>Num\<close> is a number (integers and floats are not told apart,
  as Python's \<^verbatim>\<open>==\<close> does not; floats are idealised as rationals), \<open>Day\<close> is a
  \<^verbatim>\<open>datetime.date\<close> object and \<open>Ts\<close> a pandas timestamp, of which only the calendar
  date is kept (every use in the program goes through \<^verbatim>\<open>.dt.date\<close>).
\<close>

datatype cell = PNone | NaN | Str string | Num rat | Day date | Ts date

text \<open>\<^verbatim>\<open>pd.isna\<close> and \<^verbatim>\<open>Series.notna\<close> on one entry.\<close>

fun isna :: "cell \<Rightarrow> bool" where
  "isna PNone = True"
| "isna NaN = True"
| "isna _ = False"

definition notna :: "cell \<Rightarrow> bool" where
  "notna v = (\<not> isna v)"

text \<open>
  A data frame has column labels and rows; a row gives the entry under each label (what
  it gives under a label that is not a column is never read: every read of the program
  is guarded by a test of the labels, or raises \<^verbatim>\<open>KeyError\<close>, which is modelled as
  such). Column labels are taken to be pairwise distinct, as the headers of a sheet and
  the columns of a table are.
\<close>

type_synonym row = "string \<Rightarrow> cell"

record frame =
  columns :: "string list"
  rows :: "row list"

definition empty_frame :: frame where
  "empty_frame = \<lparr>columns = [], rows = []\<rparr>"

text \<open>\<^verbatim>\<open>df.empty\<close>: some axis has length zero.\<close>

definition is_empty :: "frame \<Rightarrow> bool" where
  "is_empty df = (columns df = [] \<or> rows df = [])"

text \<open>\<^verbatim>\<open>col in df.columns\<close>.\<close>

definition has_col :: "string \<Rightarrow> frame \<Rightarrow> bool" where
  "has_col c df = (c \<in> set (columns df))"

text \<open>
  \<^verbatim>\<open>df[c] = e\<close> where \<open>e\<close> is computed row by row from the frame (every column
  expression of the program is elementwise); the column is appended when it is new.
\<close>

definition assign :: "string \<Rightarrow> (row \<Rightarrow> cell) \<Rightarrow> frame \<Rightarrow> frame" where
  "assign c f df =
     \<lparr>columns = (if c \<in> set (columns df) then columns df else columns df @ [c]),
      rows = map (\<lambda>r. r(c := f r)) (rows df)\<rparr>"

text \<open>\<^verbatim>\<open>df[mask]\<close> for a mask computed row by row.\<close>

definition select_rows :: "(row \<Rightarrow> bool) \<Rightarrow> frame \<Rightarrow> frame" where
  "select_rows p df = df\<lparr>rows := filter p (rows df)\<rparr>"

text \<open>
  Relabelling the columns by \<open>f\<close>: the entry under a new label is the entry of the
  (first) old column that is relabelled to it.
\<close>

definition rename_columns :: "(string \<Rightarrow> string) \<Rightarrow> frame \<Rightarrow> frame" where
  "rename_columns f df =
     \<lparr>columns = map f (columns df),
      rows = map (\<lambda>r k. case find (\<lambda>c. f c = k) (columns df) of
                          None \<Rightarrow> NaN | Some c \<Rightarrow> r c) (rows df)\<rparr>"

text \<open>\<^verbatim>\<open>pd.DataFrame(data, columns=names)\<close> for a list of tuples.\<close>

definition DataFrame :: "cell list list \<Rightarrow> string list \<Rightarrow> frame" where
  "DataFrame data names =
     \<lparr>columns = names,
      rows = map (\<lambda>t k. case map_of (zip names t) k of None \<Rightarrow> NaN | Some v \<Rightarrow> v) data\<rparr>"

section \<open>Python strings\<close>

text \<open>
  Strings are modelled on ASCII text: \<^verbatim>\<open>str.lower\<close>, \<^verbatim>\<open>str.title\<close> and
  \<^verbatim>\<open>str.strip\<close> act on the ASCII letters and the ASCII white space and leave every
  other character alone.
\<close>

definition upper_letters :: string where
  "upper_letters = ''ABCDEFGHIJKLMNOPQRSTUVWXYZ''"

definition lower_letters :: string where
  "lower_letters = ''abcdefghijklmnopqrstuvwxyz''"

definition lower_char :: "char \<Rightarrow> char" where
  "lower_char c = (case map_of (zip upper_letters lower_letters) c of None \<Rightarrow> c | Some l \<Rightarrow> l)"

definition upper_char :: "char \<Rightarrow> char" where
  "upper_char c = (case map_of (zip lower_letters upper_letters) c of None \<Rightarrow> c | Some u \<Rightarrow> u)"

definition is_cased :: "char \<Rightarrow> bool" where
  "is_cased c = (c \<in> set upper_letters \<or> c \<in> set lower_letters)"

definition is_space :: "char \<Rightarrow> bool" where
  "is_space c = (c \<in> set [CHR '' '', CHR 0x09, CHR 0x0A, CHR 0x0B, CHR 0x0C, CHR 0x0D,
                           CHR 0x1C, CHR 0x1D, CHR 0x1E, CHR 0x1F])"

definition lower :: "string \<Rightarrow> string" where
  "lower s = map lower_char s"

definition strip :: "string \<Rightarrow> string" where
  "strip s = rev (dropWhile is_space (rev (dropWhile is_space s)))"

text \<open>
  \<^verbatim>\<open>str.title\<close>: a letter that follows a letter is lowercased, any other letter is
  uppercased.
\<close>

fun title_from :: "bool \<Rightarrow> string \<Rightarrow> string" where
  "title_from prev [] = []"
| "title_from prev (c # cs) =
     (if is_cased c then (if prev then lower_char c else upper_char c) # title_from True cs
      else c # title_from False cs)"

definition title :: "string \<Rightarrow> string" where
  "title s = title_from False s"

text \<open>\<^verbatim>\<open>s.replace(a, b)\<close> for a single character \<open>a\<close>.\<close>

definition replace_char :: "char \<Rightarrow> string \<Rightarrow> string \<Rightarrow> string" where
  "replace_char a b s = concat (map (\<lambda>c. if c = a then b else [c]) s)"

section \<open>The pandas conversions\<close>

text \<open>
  The parsers of pandas are not part of the repository; they are parameters of the model.
  \<open>parse_datetime\<close> is \<^verbatim>\<open>pd.to_datetime(v, errors='coerce')\<close> on a string, a number
  or a date object, giving the calendar date or \<open>None\<close> for \<^verbatim>\<open>NaT\<close>;
  \<open>parse_numeric\<close> is \<^verbatim>\<open>pd.to_numeric(v, errors='coerce')\<close> on a string or a date,
  with \<open>None\<close> for \<^verbatim>\<open>NaN\<close>; \<open>repr_num\<close> and \<open>repr_date\<close> are \<^verbatim>\<open>str\<close> on a number
  and on a date or timestamp.
\<close>

record pandas =
  parse_datetime :: "cell \<Rightarrow> date option"
  parse_numeric :: "cell \<Rightarrow> rat option"
  repr_num :: "rat \<Rightarrow> string"
  repr_date :: "date \<Rightarrow> string"

text \<open>
  What does not depend on the parser: a missing value stays missing, a timestamp is
  already a timestamp, a number is already a number.
\<close>

fun to_datetime :: "pandas \<Rightarrow> cell \<Rightarrow> date option" where
  "to_datetime lib PNone = None"
| "to_datetime lib NaN = None"
| "to_datetime lib (Ts d) = Some d"
| "to_datetime lib v = parse_datetime lib v"

fun to_numeric :: "pandas \<Rightarrow> cell \<Rightarrow> rat option" where
  "to_numeric lib PNone = None"
| "to_numeric lib NaN = None"
| "to_numeric lib (Num q) = Some q"
| "to_numeric lib v = parse_numeric lib v"

text \<open>\<^verbatim>\<open>pd.to_datetime(col, errors='coerce').dt.date\<close> on one entry.\<close>

definition to_date :: "pandas \<Rightarrow> cell \<Rightarrow> cell" where
  "to_date lib v = (case to_datetime lib v of None \<Rightarrow> NaN | Some d \<Rightarrow> Day d)"

text \<open>\<^verbatim>\<open>pd.to_datetime(col, errors='coerce')\<close> on one entry, kept as a timestamp.\<close>

definition to_timestamp :: "pandas \<Rightarrow> cell \<Rightarrow> cell" where
  "to_timestamp lib v = (case to_datetime lib v of None \<Rightarrow> NaN | Some d \<Rightarrow> Ts d)"

text \<open>\<^verbatim>\<open>pd.to_numeric(col, errors='coerce').fillna(0)\<close> on one entry.\<close>

definition to_numeric_fillna :: "pandas \<Rightarrow> cell \<Rightarrow> cell" where
  "to_numeric_fillna lib v = (case to_numeric lib v of None \<Rightarrow> Num 0 | Some q \<Rightarrow> Num q)"

text \<open>\<^verbatim>\<open>col.astype(str)\<close> on one entry.\<close>

fun astype_str :: "pandas \<Rightarrow> cell \<Rightarrow> string" where
  "astype_str lib PNone = ''None''"
| "astype_str lib NaN = ''nan''"
| "astype_str lib (Str s) = s"
| "astype_str lib (Num q) = repr_num lib q"
| "astype_str lib (Day d) = repr_date lib d"
| "astype_str lib (Ts d) = repr_date lib d"

section \<open>The synchronisation script\<close>

definition expected_db_columns :: "string list" where
  "expected_db_columns =
     [''name'', ''email'', ''number'', ''country_name'', ''remarks'', ''agent'',
      ''first_call_date'', ''status'', ''notes_from_call'', ''post_call_email'', ''tags'',
      ''interested_category'', ''sales_status'', ''sales_amount'', ''next_follow_up_time'',
      ''next_follow_up_date'', ''Calling_Stamp'', ''Signup_Date'']"

subsection \<open>Fetching the sheet\<close>

text \<open>
  What the Google Sheets client delivers: the spreadsheet or the worksheet may be
  missing, reading may fail in any other way, or \<^verbatim>\<open>get_all_records\<close> returns the
  records, from which \<^verbatim>\<open>pd.DataFrame(data)\<close> is built (entries are strings and
  numbers; an empty sheet cell is the empty string).
\<close>

datatype worksheet = NoSpreadsheet | NoWorksheet | ReadFailure | Records frame

datatype py_exception = SpreadsheetNotFound | WorksheetNotFound | KeyError | OtherException

text \<open>
  \<^verbatim>\<open>df.columns.str.lower().str.strip().str.replace(' ', '_').str.replace('&', 'and')\<close>
\<close>

definition normalise_label :: "string \<Rightarrow> string" where
  "normalise_label c = replace_char (CHR ''&'') ''and'' (replace_char (CHR '' '') ''_'' (strip (lower c)))"

text \<open>\<^verbatim>\<open>if a in df.columns: df.rename(columns={a: b}, inplace=True)\<close>\<close>

definition rename_if_present :: "string \<Rightarrow> string \<Rightarrow> frame \<Rightarrow> frame" where
  "rename_if_present a b df =
     (if has_col a df then rename_columns (\<lambda>c. if c = a then b else c) df else df)"

text \<open>\<^verbatim>\<open>.str.replace(r'[$,]', '', regex=True)\<close>\<close>

definition strip_currency :: "string \<Rightarrow> string" where
  "strip_currency s = filter (\<lambda>c. c \<noteq> CHR ''$'' \<and> c \<noteq> CHR '','') s"

definition clean_sales_amount :: "pandas \<Rightarrow> frame \<Rightarrow> frame" where
  "clean_sales_amount lib df =
     (if has_col ''sales_amount'' df then
        assign ''sales_amount'' (\<lambda>r. to_numeric_fillna lib (r ''sales_amount''))
          (assign ''sales_amount'' (\<lambda>r. Str (strip_currency (astype_str lib (r ''sales_amount'')))) df)
      else df)"

definition date_cols_from_sheet :: "string list" where
  "date_cols_from_sheet = [''first_call_date'', ''next_follow_up_date'']"

definition parse_date_col :: "pandas \<Rightarrow> frame \<Rightarrow> string \<Rightarrow> frame" where
  "parse_date_col lib df col =
     (if has_col col df then assign col (\<lambda>r. to_date lib (r col)) df else df)"

text \<open>
  The admission filter \<^verbatim>\<open>df[df['email'].notnull() & (df['email'] != '')]\<close> on one row.
\<close>

definition email_admitted :: "row \<Rightarrow> bool" where
  "email_admitted r = (notna (r ''email'') \<and> r ''email'' \<noteq> Str [])"

text \<open>\<^verbatim>\<open>'date' in col\<close>\<close>

fun contains :: "string \<Rightarrow> string \<Rightarrow> bool" where
  "contains sub [] = (sub = [])"
| "contains sub (c # cs) = (take (length sub) (c # cs) = sub \<or> contains sub cs)"

definition default_value :: "string \<Rightarrow> cell" where
  "default_value col =
     (if col = ''sales_amount'' then Num 0
      else if contains ''date'' col then NaN
      else Str [])"

text \<open>
  One round of the loop that fills \<^verbatim>\<open>df_reordered\<close>, which starts with the expected
  columns and no rows. Assigning a column of \<open>df\<close> to a frame that has no rows yet
  gives the frame the rows of \<open>df\<close>, the columns assigned before being missing there;
  assigning a scalar fills the rows that the frame has at that moment.
\<close>

definition reorder_step :: "frame \<Rightarrow> frame \<Rightarrow> string \<Rightarrow> frame" where
  "reorder_step df out col =
     (if has_col col df then
        (if rows out = [] then out\<lparr>rows := map (\<lambda>r. (\<lambda>_. NaN)(col := r col)) (rows df)\<rparr>
         else out\<lparr>rows := map (\<lambda>(out_row, r). out_row(col := r col)) (zip (rows out) (rows df))\<rparr>)
      else assign col (\<lambda>_. default_value col) out)"

definition reorder :: "frame \<Rightarrow> frame" where
  "reorder df = foldl (reorder_step df) \<lparr>columns = expected_db_columns, rows = []\<rparr> expected_db_columns"

text \<open>The frame as it is just before the admission filter.\<close>

definition prepare :: "pandas \<Rightarrow> frame \<Rightarrow> frame" where
  "prepare lib df =
     foldl (parse_date_col lib)
       (clean_sales_amount lib
         (rename_if_present ''agent_name'' ''agent''
           (rename_if_present ''customer_name'' ''name''
             (rename_columns normalise_label df))))
       date_cols_from_sheet"

text \<open>The body of the \<^verbatim>\<open>try\<close> block of \<^verbatim>\<open>fetch_data_from_gsheets\<close>.\<close>

definition fetch_try :: "pandas \<Rightarrow> worksheet \<Rightarrow> py_exception + frame" where
  "fetch_try lib ws =
     (case ws of
        NoSpreadsheet \<Rightarrow> Inl SpreadsheetNotFound
      | NoWorksheet \<Rightarrow> Inl WorksheetNotFound
      | ReadFailure \<Rightarrow> Inl OtherException
      | Records df \<Rightarrow>
          (let df = prepare lib df in
           if \<not> has_col ''email'' df then Inl KeyError
           else Inr (reorder (select_rows email_admitted df))))"

text \<open>Every exception is caught and answered with \<^verbatim>\<open>pd.DataFrame()\<close>.\<close>

definition fetch_data_from_gsheets :: "pandas \<Rightarrow> worksheet \<Rightarrow> frame" where
  "fetch_data_from_gsheets lib ws =
     (case fetch_try lib ws of Inl e \<Rightarrow> empty_frame | Inr df \<Rightarrow> df)"

subsection \<open>The store\<close>

text \<open>
  The database maps a table name to its tuples, in insertion order (the \<^verbatim>\<open>id\<close> column,
  which numbers them from 1 after \<^verbatim>\<open>RESTART IDENTITY\<close>, is never selected and is left
  out). The store keeps a value as it is given; a value it refuses is a fault of
  the statement that writes it. A connection holds the committed state and the state
  seen inside the open transaction.
\<close>

type_synonym table = "cell list list"

type_synonym db = "string \<rightharpoonup> table"

record conn =
  committed :: db
  working :: db

definition connect :: "db \<Rightarrow> conn" where
  "connect d = \<lparr>committed = d, working = d\<rparr>"

definition commit :: "conn \<Rightarrow> conn" where
  "commit c = c\<lparr>committed := working c\<rparr>"

definition rollback :: "conn \<Rightarrow> conn" where
  "rollback c = c\<lparr>working := committed c\<rparr>"

text \<open>Closing a connection discards the open transaction.\<close>

definition close :: "conn \<Rightarrow> db" where
  "close c = committed c"

text \<open>\<^verbatim>\<open>CREATE TABLE IF NOT EXISTS\<close>, \<^verbatim>\<open>TRUNCATE TABLE\<close> and the batch of \<^verbatim>\<open>INSERT\<close>s.\<close>

definition create_table :: "string \<Rightarrow> db \<Rightarrow> db" where
  "create_table t d = (case d t of None \<Rightarrow> d(t \<mapsto> []) | Some old \<Rightarrow> d)"

definition truncate_table :: "string \<Rightarrow> db \<Rightarrow> db" where
  "truncate_table t d = d(t \<mapsto> [])"

definition insert_rows :: "string \<Rightarrow> table \<Rightarrow> db \<Rightarrow> db" where
  "insert_rows t new d = d(t \<mapsto> (case d t of None \<Rightarrow> [] | Some old \<Rightarrow> old) @ new)"

definition execute :: "(db \<Rightarrow> db) \<Rightarrow> conn \<Rightarrow> conn" where
  "execute stmt c = c\<lparr>working := stmt (working c)\<rparr>"

text \<open>
  Where a run fails, if it does, and with what: an error of the database driver
  (\<^verbatim>\<open>psycopg2.Error\<close>) or any other exception. \<open>ExecInsert k\<close> is a batch that fails
  when \<open>k\<close> of its tuples have been written.
\<close>

datatype db_step =
  Connect | ExecCreate | CommitCreate | ExecTruncate | CommitTruncate | ExecInsert nat | CommitInsert

datatype exn_kind = PsycopgError | OtherError

type_synonym fault = "(db_step \<times> exn_kind) option"

definition fault_at :: "fault \<Rightarrow> db_step \<Rightarrow> exn_kind option" where
  "fault_at flt s = (case flt of None \<Rightarrow> None | Some (s', e) \<Rightarrow> if s' = s then Some e else None)"

definition insert_fault :: "fault \<Rightarrow> (nat \<times> exn_kind) option" where
  "insert_fault flt = (case flt of Some (ExecInsert k, e) \<Rightarrow> Some (k, e) | _ \<Rightarrow> None)"

text \<open>A statement that either raises, leaving the connection as it was, or takes effect.\<close>

definition attempt :: "fault \<Rightarrow> db_step \<Rightarrow> (conn \<Rightarrow> conn) \<Rightarrow> conn \<Rightarrow> (exn_kind \<times> conn) + conn" where
  "attempt flt s f c = (case fault_at flt s of Some e \<Rightarrow> Inl (e, c) | None \<Rightarrow> Inr (f c))"

definition and_then :: "'e + 'a \<Rightarrow> ('a \<Rightarrow> 'e + 'b) \<Rightarrow> 'e + 'b" where
  "and_then m f = (case m of Inl e \<Rightarrow> Inl e | Inr a \<Rightarrow> f a)"

subsection \<open>Writing the table\<close>

text \<open>The value that is sent for one entry: missing values and blank strings become \<^verbatim>\<open>None\<close>.\<close>

definition processed_value :: "cell \<Rightarrow> cell" where
  "processed_value v =
     (if isna v then PNone
      else case v of Str s \<Rightarrow> (if strip s = [] then PNone else v) | _ \<Rightarrow> v)"

definition data_to_insert :: "frame \<Rightarrow> string list \<Rightarrow> table" where
  "data_to_insert df expected_cols =
     map (\<lambda>r. map (\<lambda>col. processed_value (r col)) expected_cols) (rows df)"

text \<open>
  The body of the \<^verbatim>\<open>try\<close> block of \<^verbatim>\<open>insert_data_to_postgres\<close>, after the
  connection is made: it ends in an exception with the connection as it is then, or
  with the connection after the last commit and the number of tuples written.
  \<^verbatim>\<open>row[col]\<close> raises \<^verbatim>\<open>KeyError\<close> when the frame has a row and lacks an expected
  column.
\<close>

definition insert_try :: "fault \<Rightarrow> frame \<Rightarrow> string \<Rightarrow> string list \<Rightarrow> conn \<Rightarrow> (exn_kind \<times> conn) + (conn \<times> nat)" where
  "insert_try flt df table_name expected_cols c0 =
     and_then (attempt flt ExecCreate (execute (create_table table_name)) c0) (\<lambda>c1.
     and_then (attempt flt CommitCreate commit c1) (\<lambda>c2.
     and_then (attempt flt ExecTruncate (execute (truncate_table table_name)) c2) (\<lambda>c3.
     and_then (attempt flt CommitTruncate commit c3) (\<lambda>c4.
       if rows df \<noteq> [] \<and> \<not> set expected_cols \<subseteq> set (columns df) then Inl (OtherError, c4)
       else
         let new = data_to_insert df expected_cols in
         (case insert_fault flt of
            Some (k, e) \<Rightarrow> Inl (e, execute (insert_rows table_name (take k new)) c4)
          | None \<Rightarrow>
              and_then (attempt flt CommitInsert commit (execute (insert_rows table_name new) c4))
                (\<lambda>c6. Inr (c6, length new)))))))"

text \<open>
  The result of a run: the database as it is after the connection is closed, and the
  number of the success message, if that message is printed.
\<close>

record outcome =
  store :: db
  inserted :: "nat option"

text \<open>
  \<^verbatim>\<open>insert_data_to_postgres\<close>: a driver error is answered with a rollback, any other
  exception is only reported, and the connection is closed in either case. When the
  connection cannot be made there is nothing to roll back or to close.
\<close>

definition insert_data_to_postgres :: "fault \<Rightarrow> frame \<Rightarrow> string \<Rightarrow> string list \<Rightarrow> db \<Rightarrow> outcome" where
  "insert_data_to_postgres flt df table_name expected_cols d =
     (case fault_at flt Connect of
        Some e \<Rightarrow> \<lparr>store = d, inserted = None\<rparr>
      | None \<Rightarrow>
          (case insert_try flt df table_name expected_cols (connect d) of
             Inl (PsycopgError, c) \<Rightarrow> \<lparr>store = close (rollback c), inserted = None\<rparr>
           | Inl (OtherError, c) \<Rightarrow> \<lparr>store = close c, inserted = None\<rparr>
           | Inr (c, n) \<Rightarrow> \<lparr>store = close c, inserted = Some n\<rparr>))"

text \<open>
  The script's main block. \<open>gc_client\<close> is \<open>None\<close> when the client could not be
  initialised; otherwise it stands for what reading the sheet will give. The script
  exits before it touches the database when the client is missing or the fetched frame
  is empty.
\<close>

definition main :: "pandas \<Rightarrow> worksheet option \<Rightarrow> fault \<Rightarrow> db \<Rightarrow> db" where
  "main lib gc_client flt d =
     (case gc_client of
        None \<Rightarrow> d
      | Some ws \<Rightarrow>
          (let df_sheets = fetch_data_from_gsheets lib ws in
           if is_empty df_sheets then d
           else store (insert_data_to_postgres flt df_sheets ''sales_data'' expected_db_columns d)))"

section \<open>The dashboard application\<close>

subsection \<open>Loading the table\<close>

text \<open>The two dictionaries of the vocabulary mapping, in the order of the source.\<close>

definition status_mapping :: "(string \<times> string) list" where
  "status_mapping =
     [(''answered call'', ''Answered''),
      (''answered'', ''Answered''),
      (''not answered'', ''Not answered''),
      (''invalid number'', ''Invalid number''),
      (''silent call/voicemail'', ''Voicemail''),
      (''voicemail'', ''Voicemail'')]"

definition sales_status_mapping :: "(string \<times> string) list" where
  "sales_status_mapping =
     [(''sold'', ''Converted''),
      (''deal won'', ''Converted''),
      (''deal complete'', ''Converted''),
      (''converted'', ''Converted''),
      (''lost'', ''Not interested''),
      (''no interest'', ''Not interested''),
      (''not interested (n)'', ''Not interested''),
      (''not interested'', ''Not interested''),
      (''follow up'', ''Follow up''),
      (''f'', ''Follow up'')]"

text \<open>\<^verbatim>\<open>col.astype(str).str.strip().str.lower()\<close> on one entry.\<close>

definition vocabulary_key :: "pandas \<Rightarrow> cell \<Rightarrow> string" where
  "vocabulary_key lib v = lower (strip (astype_str lib v))"

text \<open>\<^verbatim>\<open>col.map(mapping)\<close> on one string: a key that is not in the dictionary gives \<^verbatim>\<open>NaN\<close>.\<close>

definition map_dict :: "(string \<times> string) list \<Rightarrow> string \<Rightarrow> cell" where
  "map_dict mapping k = (case map_of mapping k of None \<Rightarrow> NaN | Some s \<Rightarrow> Str s)"

text \<open>\<^verbatim>\<open>col.apply(lambda x: x.title() if pd.notna(x) else x)\<close> on one entry of strings.\<close>

definition title_if_notna :: "cell \<Rightarrow> cell" where
  "title_if_notna v = (case v of Str s \<Rightarrow> Str (title s) | _ \<Rightarrow> v)"

text \<open>
  \<^verbatim>\<open>col.replace(d, inplace=True)\<close> on one entry: an entry equal to a key of \<open>d\<close> is
  replaced (the in-place call on the selected column changes the frame, as it does
  without copy-on-write).
\<close>

definition replace_values :: "(string \<times> string) list \<Rightarrow> cell \<Rightarrow> cell" where
  "replace_values d v =
     (case v of Str s \<Rightarrow> (case map_of d s of None \<Rightarrow> v | Some t \<Rightarrow> Str t) | _ \<Rightarrow> v)"

definition standardise_status :: "pandas \<Rightarrow> cell \<Rightarrow> cell" where
  "standardise_status lib v =
     replace_values [(''Invalid Number'', ''Invalid number''), (''Not Answered'', ''Not answered'')]
       (title_if_notna (map_dict status_mapping (vocabulary_key lib v)))"

definition standardise_sales_status :: "pandas \<Rightarrow> cell \<Rightarrow> cell" where
  "standardise_sales_status lib v =
     title_if_notna (map_dict sales_status_mapping (vocabulary_key lib v))"

text \<open>\<^verbatim>\<open>col.isin(values)\<close> on one entry, and the nested \<^verbatim>\<open>np.where\<close> of the country group.\<close>

definition isin :: "cell \<Rightarrow> string list \<Rightarrow> bool" where
  "isin v xs = (case v of Str s \<Rightarrow> s \<in> set xs | _ \<Rightarrow> False)"

definition country_group :: "cell \<Rightarrow> string" where
  "country_group country_name =
     (if isin country_name [''India'', ''Pakistan'', ''Bangladesh''] then ''South Asia''
      else if isin country_name [''Brazil'', ''Argentina'', ''Colombia''] then ''Latin America''
      else if isin country_name [''Iraq'', ''Saudi Arabia'', ''United Arab Emirates''] then ''Middle East''
      else ''Other'')"

text \<open>
  \<^verbatim>\<open>col <= d\<close> on one entry of a column of dates: false on a missing value.
\<close>

definition le_date :: "cell \<Rightarrow> date \<Rightarrow> bool" where
  "le_date v d = (case v of Day x \<Rightarrow> date_le x d | _ \<Rightarrow> False)"

text \<open>\<^verbatim>\<open>col += mask.astype(int)\<close> on one entry.\<close>

definition add_flag :: "cell \<Rightarrow> bool \<Rightarrow> cell" where
  "add_flag v b = (case v of Num q \<Rightarrow> Num (q + (if b then 1 else 0)) | _ \<Rightarrow> NaN)"

definition follow_up_date_db_columns :: "string list" where
  "follow_up_date_db_columns = [''next_follow_up_date'']"

text \<open>The steps of the post-processing, in the order of the source.\<close>

definition add_initial_call :: "pandas \<Rightarrow> frame \<Rightarrow> frame" where
  "add_initial_call lib df =
     (if has_col ''first_call_date'' df then
        assign ''is_initial_call'' (\<lambda>r. Num (if notna (r ''date_called'') then 1 else 0))
          (assign ''date_called'' (\<lambda>r. to_timestamp lib (r ''first_call_date'')) df)
      else assign ''is_initial_call'' (\<lambda>_. Num 0) (assign ''date_called'' (\<lambda>_. NaN) df))"

definition convert_sales_amount :: "pandas \<Rightarrow> frame \<Rightarrow> frame" where
  "convert_sales_amount lib df =
     (if has_col ''sales_amount'' df then
        assign ''sales_amount'' (\<lambda>r. to_numeric_fillna lib (r ''sales_amount'')) df
      else assign ''sales_amount'' (\<lambda>_. Num 0) df)"

definition parse_follow_up_col :: "pandas \<Rightarrow> frame \<Rightarrow> string \<Rightarrow> frame" where
  "parse_follow_up_col lib df col_name =
     (if has_col col_name df then assign col_name (\<lambda>r. to_date lib (r col_name)) df
      else assign col_name (\<lambda>_. NaN) df)"

definition standardise_status_col :: "pandas \<Rightarrow> frame \<Rightarrow> frame" where
  "standardise_status_col lib df =
     (if has_col ''status'' df then assign ''status'' (\<lambda>r. standardise_status lib (r ''status'')) df
      else assign ''status'' (\<lambda>_. Str ''nan'') df)"

definition standardise_sales_status_col :: "pandas \<Rightarrow> frame \<Rightarrow> frame" where
  "standardise_sales_status_col lib df =
     (if has_col ''sales_status'' df then
        assign ''sales_status'' (\<lambda>r. standardise_sales_status lib (r ''sales_status'')) df
      else assign ''sales_status'' (\<lambda>_. Str ''nan'') df)"

definition add_country_group :: "frame \<Rightarrow> frame" where
  "add_country_group df =
     assign ''country_group'' (\<lambda>r. Str (country_group (r ''country_name'')))
       (if \<not> has_col ''country_name'' df then assign ''country_name'' (\<lambda>_. Str ''Unknown'') df else df)"

text \<open>
  One round of the follow-up counting loop: the column is parsed again and the counter
  grows by one where the date is present and not after \<open>today\<close>.
\<close>

definition count_follow_up_col :: "pandas \<Rightarrow> date \<Rightarrow> frame \<Rightarrow> string \<Rightarrow> frame" where
  "count_follow_up_col lib today df col_name =
     (if has_col col_name df then
        assign ''total_follow_up_calls''
          (\<lambda>r. add_flag (r ''total_follow_up_calls'') (notna (r col_name) \<and> le_date (r col_name) today))
          (assign col_name (\<lambda>r. to_date lib (r col_name)) df)
      else df)"

definition add_total_follow_up_calls :: "pandas \<Rightarrow> date \<Rightarrow> frame \<Rightarrow> frame" where
  "add_total_follow_up_calls lib today df =
     foldl (count_follow_up_col lib today)
       (assign ''total_follow_up_calls'' (\<lambda>_. Num 0) df) follow_up_date_db_columns"

definition finish_follow_up_date :: "pandas \<Rightarrow> frame \<Rightarrow> frame" where
  "finish_follow_up_date lib df =
     (if has_col ''next_follow_up_date'' df then
        assign ''next_follow_up_date'' (\<lambda>r. to_date lib (r ''next_follow_up_date'')) df
      else assign ''next_follow_up_date'' (\<lambda>_. NaN) df)"

definition ensure_email_agent :: "frame \<Rightarrow> frame" where
  "ensure_email_agent df =
     (let df = (if \<not> has_col ''email'' df then assign ''email'' (\<lambda>_. Str []) df else df)
      in if \<not> has_col ''agent'' df then assign ''agent'' (\<lambda>_. Str ''Unknown'') df else df)"

text \<open>
  The post-processing of \<^verbatim>\<open>load_full_sales_data_from_db\<close>. The columns
  \<^verbatim>\<open>issues\<close> and \<^verbatim>\<open>call_outcome\<close> (two regular-expression extractions into columns
  of their own) and the clean-up of \<^verbatim>\<open>next_follow_up_time\<close> are left out: they read
  and write no column that is used below.
\<close>

definition post_process :: "pandas \<Rightarrow> date \<Rightarrow> frame \<Rightarrow> frame" where
  "post_process lib today df_raw =
     ensure_email_agent
       (finish_follow_up_date lib
         (add_total_follow_up_calls lib today
           (add_country_group
             (standardise_sales_status_col lib
               (standardise_status_col lib
                 (foldl (parse_follow_up_col lib)
                   (convert_sales_amount lib
                     (add_initial_call lib
                       (rename_columns normalise_label df_raw)))
                   follow_up_date_db_columns))))))"

text \<open>
  \<^verbatim>\<open>load_full_sales_data_from_db\<close>: \<open>fetched\<close> is what connecting and
  \<^verbatim>\<open>SELECT ... FROM sales_data\<close> give, \<open>None\<close> for a driver error, which is answered
  with an empty frame. \<open>today\<close> is the date of the clock at that moment.
\<close>

definition load_full_sales_data_from_db :: "pandas \<Rightarrow> date \<Rightarrow> table option \<Rightarrow> string list \<Rightarrow> frame" where
  "load_full_sales_data_from_db lib today fetched expected_cols =
     (case fetched of
        None \<Rightarrow> empty_frame
      | Some data \<Rightarrow> post_process lib today (DataFrame data expected_cols))"

text \<open>The query of the loader on a database: the tuples of \<^verbatim>\<open>sales_data\<close>, if the table exists.\<close>

definition select_sales_data :: "db \<Rightarrow> table option" where
  "select_sales_data d = d ''sales_data''"

subsection \<open>Filtering and counting\<close>

record criteria =
  agent_filter :: string
  country_filter :: string
  status_filter :: string
  start_date :: date
  end_date :: date

text \<open>\<^verbatim>\<open>if v != 'All': filtered_df = filtered_df[filtered_df[c] == v]\<close>\<close>

definition where_equal :: "string \<Rightarrow> string \<Rightarrow> frame \<Rightarrow> frame" where
  "where_equal c v df = (if v \<noteq> ''All'' then select_rows (\<lambda>r. r c = Str v) df else df)"

text \<open>
  The date mask on one row: the date of \<^verbatim>\<open>pd.to_datetime(date_called)\<close> lies between
  the two ends; a missing date compares false.
\<close>

definition in_date_range :: "pandas \<Rightarrow> date \<Rightarrow> date \<Rightarrow> row \<Rightarrow> bool" where
  "in_date_range lib lo hi r =
     (case to_datetime lib (r ''date_called'') of
        None \<Rightarrow> False
      | Some d \<Rightarrow> date_le lo d \<and> date_le d hi)"

text \<open>
  The sidebar filter. The helper column \<^verbatim>\<open>date_called_dt\<close>, which the source adds for
  the mask and drops again, is not kept.
\<close>

definition filtered_df :: "pandas \<Rightarrow> criteria \<Rightarrow> frame \<Rightarrow> frame" where
  "filtered_df lib crit current_user_df =
     (let df = where_equal ''status'' (status_filter crit)
                 (where_equal ''country_name'' (country_filter crit)
                   (where_equal ''agent'' (agent_filter crit) current_user_df))
      in if has_col ''date_called'' df then
           select_rows (in_date_range lib (start_date crit) (end_date crit)) df
         else \<lparr>columns = columns current_user_df, rows = []\<rparr>)"

definition follow_up_date_cols_for_counting :: "string list" where
  "follow_up_date_cols_for_counting = [''next_follow_up_date'']"

text \<open>The dashboard's total of follow-up calls, counted against the filter's end date.\<close>

definition total_follow_up_calls_overall :: "date \<Rightarrow> frame \<Rightarrow> nat" where
  "total_follow_up_calls_overall filter_end_date df =
     sum_list (map (\<lambda>col_name.
                  if has_col col_name df then
                    length (filter (\<lambda>r. notna (r col_name) \<and> le_date (r col_name) filter_end_date) (rows df))
                  else 0)
               follow_up_date_cols_for_counting)"

text \<open>\<^verbatim>\<open>df[c].sum()\<close>: missing values count as zero.\<close>

definition num_value :: "cell \<Rightarrow> rat" where
  "num_value v = (case v of Num q \<Rightarrow> q | _ \<Rightarrow> 0)"

definition col_sum :: "string \<Rightarrow> frame \<Rightarrow> rat" where
  "col_sum c df = sum_list (map (\<lambda>r. num_value (r c)) (rows df))"

text \<open>
  The follow-up calls of one agent on the agent tab and in the group tables:
  \<^verbatim>\<open>filtered_df[filtered_df['agent'] == a]['total_follow_up_calls'].sum()\<close>.
\<close>

definition total_follow_up_calls_agent :: "string \<Rightarrow> frame \<Rightarrow> rat" where
  "total_follow_up_calls_agent selected_agent df =
     col_sum ''total_follow_up_calls'' (select_rows (\<lambda>r. r ''agent'' = Str selected_agent) df)"

section \<open>A reference instance of the conversions\<close>

text \<open>
  For concrete runs the conversions are instantiated on a small fragment on which
  pandas is known: dates written \<^verbatim>\<open>YYYY-MM-DD\<close> within the range of nanosecond
  timestamps, date objects (taken to lie in that range), and numbers written as
  decimal digits. Everything else is reported missing by this instance.
\<close>

definition digit_value :: "char \<Rightarrow> nat option" where
  "digit_value c = map_of (zip ''0123456789'' [0, 1, 2, 3, 4, 5, 6, 7, 8, 9]) c"

fun digits_value :: "nat \<Rightarrow> string \<Rightarrow> nat option" where
  "digits_value acc [] = Some acc"
| "digits_value acc (c # cs) =
     (case digit_value c of None \<Rightarrow> None | Some v \<Rightarrow> digits_value (10 * acc + v) cs)"

definition parse_nat :: "string \<Rightarrow> nat option" where
  "parse_nat s = (if s = [] then None else digits_value 0 s)"

definition leap_year :: "nat \<Rightarrow> bool" where
  "leap_year y = (y mod 4 = 0 \<and> (y mod 100 \<noteq> 0 \<or> y mod 400 = 0))"

definition days_in_month :: "nat \<Rightarrow> nat \<Rightarrow> nat" where
  "days_in_month y m =
     (if m = 2 then (if leap_year y then 29 else 28)
      else if m \<in> {4, 6, 9, 11} then 30 else 31)"

definition valid_date :: "nat \<Rightarrow> nat \<Rightarrow> nat \<Rightarrow> bool" where
  "valid_date y m d = (1678 \<le> y \<and> y \<le> 2261 \<and> 1 \<le> m \<and> m \<le> 12 \<and> 1 \<le> d \<and> d \<le> days_in_month y m)"

definition parse_iso_date :: "string \<Rightarrow> date option" where
  "parse_iso_date s =
     (if length s = 10 \<and> s ! 4 = CHR ''-'' \<and> s ! 7 = CHR ''-'' then
        (case (parse_nat (take 4 s), parse_nat (take 2 (drop 5 s)), parse_nat (drop 8 s)) of
           (Some y, Some m, Some d) \<Rightarrow> if valid_date y m d then Some (Date (int y) m d) else None
         | _ \<Rightarrow> None)
      else None)"

definition ref_parse_datetime :: "cell \<Rightarrow> date option" where
  "ref_parse_datetime v =
     (case v of
        Str s \<Rightarrow> parse_iso_date s
      | Day d \<Rightarrow> Some d
      | _ \<Rightarrow> None)"

definition ref_parse_numeric :: "cell \<Rightarrow> rat option" where
  "ref_parse_numeric v = (case v of Str s \<Rightarrow> map_option of_nat (parse_nat s) | _ \<Rightarrow> None)"

text \<open>Printing: whole numbers as Python prints integers, dates in ISO format.\<close>

fun show_nat :: "nat \<Rightarrow> string" where
  "show_nat n =
     (if n < 10 then [''0123456789'' ! n]
      else show_nat (n div 10) @ [''0123456789'' ! (n mod 10)])"

definition show_int :: "int \<Rightarrow> string" where
  "show_int i = (if i < 0 then CHR ''-'' # show_nat (nat (- i)) else show_nat (nat i))"

definition pad :: "nat \<Rightarrow> string \<Rightarrow> string" where
  "pad n s = replicate (n - length s) (CHR ''0'') @ s"

definition ref_repr_date :: "date \<Rightarrow> string" where
  "ref_repr_date d =
     pad 4 (show_int (year d)) @ ''-'' @ pad 2 (show_nat (month d)) @ ''-'' @ pad 2 (show_nat (day d))"

definition ref_pandas :: pandas where
  "ref_pandas =
     \<lparr>parse_datetime = ref_parse_datetime,
      parse_numeric = ref_parse_numeric,
      repr_num = (\<lambda>q. show_int \<lfloor>q\<rfloor>),
      repr_date = ref_repr_date\<rparr>"

section \<open>Example data\<close>

text \<open>A database tuple from the fields that are not \<^verbatim>\<open>NULL\<close>.\<close>

definition tuple_of :: "(string \<times> cell) list \<Rightarrow> cell list" where
  "tuple_of kvs = map (\<lambda>c. case map_of kvs c of None \<Rightarrow> PNone | Some v \<Rightarrow> v) expected_db_columns"

text \<open>The field of a stored tuple under a column name.\<close>

definition stored_field :: "string \<Rightarrow> cell list \<Rightarrow> cell" where
  "stored_field c t = (case map_of (zip expected_db_columns t) c of None \<Rightarrow> NaN | Some v \<Rightarrow> v)"

text \<open>A sheet record from its entries.\<close>

definition record_of :: "(string \<times> cell) list \<Rightarrow> row" where
  "record_of kvs = (\<lambda>k. case map_of kvs k of None \<Rightarrow> NaN | Some v \<Rightarrow> v)"

text \<open>The two-row sheet of the end-to-end scenario.\<close>

definition scenario_sheet :: frame where
  "scenario_sheet =
     \<lparr>columns = [''agent'', ''status'', ''sales_amount'', ''first_call_date'', ''email''],
      rows =
        [record_of [(''agent'', Str ''A''), (''status'', Str ''answered call''),
                    (''sales_amount'', Str ''$1,000''), (''first_call_date'', Str ''2024-01-01''),
                    (''email'', Str ''a@x.com'')],
         record_of [(''agent'', Str ''A''), (''status'', Str ''Lost''),
                    (''sales_amount'', Str []), (''first_call_date'', Str []),
                    (''email'', Str [])]]\<rparr>"

text \<open>A sheet whose only record has no email, and a database that already holds a tuple.\<close>

definition rejected_sheet :: frame where
  "rejected_sheet =
     \<lparr>columns = [''Agent Name'', ''Email''],
      rows = [record_of [(''Agent Name'', Str ''B''), (''Email'', Str [])]]\<rparr>"

definition old_db :: db where
  "old_db = [''sales_data'' \<mapsto> [tuple_of [(''email'', Str ''old@x.com''), (''agent'', Str ''Z'')]]]"


definition two_row_sheet :: frame where
  "two_row_sheet =
     \<lparr>columns = [''Customer Name'', ''Email'', ''Sales Amount''],
      rows =
        [record_of [(''Customer Name'', Str ''Ann''), (''Email'', Str ''ann@x.com''),
                    (''Sales Amount'', Num 250)],
         record_of [(''Customer Name'', Str ''Bob''), (''Email'', PNone),
                    (''Sales Amount'', Str ''12'')],
         record_of [(''Customer Name'', Str ''Cy''), (''Email'', Str ''cy@x.com''),
                    (''Sales Amount'', Str ''n/a'')]]\<rparr>"

section \<open>Notions used in the statements\<close>

text \<open>
  The follow-up count in the words of the specification: the number of configured
  follow-up date fields of a record whose value is present and not after the reference
  date.
\<close>

definition spec_follow_up_count :: "date \<Rightarrow> row \<Rightarrow> nat" where
  "spec_follow_up_count ref_date r =
     length (filter (\<lambda>c. notna (r c) \<and> le_date (r c) ref_date) follow_up_date_db_columns)"

text \<open>
  The display casing in the words of the specification: title case, except that
  \<^verbatim>\<open>Not answered\<close> is left as it is.
\<close>

definition spec_display_case :: "string \<Rightarrow> string" where
  "spec_display_case s = (if s = ''Not answered'' then s else title s)"

text \<open>
  A date that the conversions have produced converts to itself when it is converted
  again as a date object.
\<close>

definition stable_dates :: "pandas \<Rightarrow> bool" where
  "stable_dates lib = (\<forall>v d. to_datetime lib v = Some d \<longrightarrow> to_datetime lib (Day d) = Some d)"

text \<open>Two frames have the same number of rows and, row by row, the same entry in a column.\<close>

definition agrees_on :: "string \<Rightarrow> frame \<Rightarrow> frame \<Rightarrow> bool" where
  "agrees_on c df df' =
     (length (rows df') = length (rows df) \<and>
      (\<forall>i<length (rows df). (rows df' ! i) c = (rows df ! i) c))"

text \<open>A table of three calls, the day on which it is loaded, and a filter that ends earlier.\<close>

definition dashboard_table :: table where
  "dashboard_table =
     [tuple_of [(''email'', Str ''p@x.com''), (''agent'', Str ''A''), (''country_name'', Str ''India''),
                (''first_call_date'', Day (Date 2024 1 1)),
                (''next_follow_up_date'', Day (Date 2024 1 10)),
                (''status'', Str ''Answered call''), (''sales_status'', Str ''Sold''),
                (''sales_amount'', Num 100)],
      tuple_of [(''email'', Str ''q@x.com''), (''agent'', Str ''B''), (''country_name'', Str ''Brazil''),
                (''first_call_date'', Day (Date 2024 1 3)),
                (''status'', Str ''not answered'')],
      tuple_of [(''email'', Str ''s@x.com''), (''agent'', Str ''A''), (''country_name'', Str ''Cyprus''),
                (''next_follow_up_date'', Day (Date 2024 1 4)),
                (''status'', Str ''invalid number'')]]"

definition dashboard_frame :: frame where
  "dashboard_frame =
     load_full_sales_data_from_db ref_pandas (Date 2024 1 15) (Some dashboard_table) expected_db_columns"

definition dashboard_criteria :: criteria where
  "dashboard_criteria =
     \<lparr>agent_filter = ''All'', country_filter = ''All'', status_filter = ''All'',
      start_date = Date 2024 1 1, end_date = Date 2024 1 5\<rparr>"

section \<open>Properties of the synchronisation script\<close>

subsection \<open>Auxiliary facts\<close>

lemma rows_reorder_step_empty:
  "rows df = [] \<Longrightarrow> rows out = [] \<Longrightarrow> rows (reorder_step df out col) = []"
  by (simp add: reorder_step_def assign_def)

lemma rows_foldl_reorder_empty:
  "rows df = [] \<Longrightarrow> rows out = [] \<Longrightarrow> rows (foldl (reorder_step df) out cols) = []"
  by (induction cols arbitrary: out) (simp_all add: rows_reorder_step_empty)

lemma rows_reorder_empty: "rows df = [] \<Longrightarrow> rows (reorder df) = []"
  by (simp add: reorder_def rows_foldl_reorder_empty)

lemma filter_none: "(\<forall>r\<in>set xs. \<not> p r) \<Longrightarrow> filter p xs = []"
  by (induction xs) auto

lemma fetch_rows_empty_cases:
  assumes "ws = NoSpreadsheet \<or> ws = NoWorksheet \<or> ws = ReadFailure \<or>
           (\<exists>df. ws = Records df \<and>
              (\<not> has_col ''email'' (prepare lib df) \<or>
               (\<forall>r\<in>set (rows (prepare lib df)). \<not> email_admitted r)))"
  shows "rows (fetch_data_from_gsheets lib ws) = []"
  using assms
  by (auto simp: fetch_data_from_gsheets_def fetch_try_def empty_frame_def Let_def
      select_rows_def rows_reorder_empty filter_none)

lemma main_exits_on_empty:
  "rows (fetch_data_from_gsheets lib ws) = [] \<Longrightarrow> main lib (Some ws) flt d = d"
  by (simp add: main_def is_empty_def Let_def)

lemma insert_no_fault:
  "set expected_cols \<subseteq> set (columns df) \<or> rows df = [] \<Longrightarrow>
   insert_data_to_postgres None df t expected_cols d =
     \<lparr>store = (create_table t d)(t \<mapsto> data_to_insert df expected_cols),
      inserted = Some (length (rows df))\<rparr>"
  by (auto simp: insert_data_to_postgres_def insert_try_def fault_at_def insert_fault_def
      attempt_def and_then_def connect_def commit_def close_def execute_def
      truncate_table_def insert_rows_def data_to_insert_def Let_def)

subsection \<open>An empty fetch leaves the store alone\<close>

text \<open>
  Claim C10. When the fetch yields no accepted row, because the spreadsheet or the
  worksheet is missing, reading fails, the sheet has no \<^verbatim>\<open>email\<close> column, or every
  row is turned away by the email gate, the script exits before it opens the database:
  the database is exactly what it was. Writing an empty record set, in contrast, would
  leave the table \<^verbatim>\<open>sales_data\<close> empty.
\<close>

theorem empty_fetch_leaves_store_untouched:
  assumes "ws = NoSpreadsheet \<or> ws = NoWorksheet \<or> ws = ReadFailure \<or>
           (\<exists>df. ws = Records df \<and>
              (\<not> has_col ''email'' (prepare lib df) \<or>
               (\<forall>r\<in>set (rows (prepare lib df)). \<not> email_admitted r)))"
  shows "main lib (Some ws) flt d = d \<and>
         store (insert_data_to_postgres None \<lparr>columns = expected_db_columns, rows = []\<rparr>
                  ''sales_data'' expected_db_columns d) ''sales_data'' = Some []"
  using fetch_rows_empty_cases[OF assms]
  by (simp add: main_exits_on_empty insert_no_fault data_to_insert_def)

theorem empty_fetch_leaves_store_untouched_witness:
  "main ref_pandas (Some (Records rejected_sheet)) None old_db = old_db \<and>
   old_db ''sales_data'' \<noteq> Some [] \<and>
   store (insert_data_to_postgres None \<lparr>columns = expected_db_columns, rows = []\<rparr>
            ''sales_data'' expected_db_columns old_db) ''sales_data'' = Some []"
proof -
  have gate: "\<forall>r\<in>set (rows (prepare ref_pandas rejected_sheet)). \<not> email_admitted r"
    by code_simp
  have old: "old_db ''sales_data'' \<noteq> Some []"
    by (simp add: old_db_def tuple_of_def)
  from gate have "\<exists>df. Records rejected_sheet = Records df \<and>
      (\<not> has_col ''email'' (prepare ref_pandas df) \<or>
       (\<forall>r\<in>set (rows (prepare ref_pandas df)). \<not> email_admitted r))"
    by blast
  then show ?thesis
    using empty_fetch_leaves_store_untouched[of "Records rejected_sheet" ref_pandas None old_db] old
    by simp
qed



lemma store_insert_no_fault:
  "store (insert_data_to_postgres None df t cols d) =
     d(t \<mapsto> (if rows df \<noteq> [] \<and> \<not> set cols \<subseteq> set (columns df) then []
             else data_to_insert df cols))"
  by (auto simp: insert_data_to_postgres_def insert_try_def fault_at_def insert_fault_def
      attempt_def and_then_def connect_def commit_def rollback_def close_def execute_def
      truncate_table_def insert_rows_def create_table_def Let_def split: option.splits)

subsection \<open>Failures while the table is rewritten\<close>



subsection \<open>What a run stores\<close>

lemma columns_reorder_step:
  "col \<in> set (columns out) \<Longrightarrow> columns (reorder_step df out col) = columns out"
  by (simp add: reorder_step_def assign_def)

lemma columns_foldl_reorder:
  "set cols \<subseteq> set (columns out) \<Longrightarrow> columns (foldl (reorder_step df) out cols) = columns out"
  by (induction cols arbitrary: out) (simp_all add: columns_reorder_step)

lemma columns_reorder: "columns (reorder df) = expected_db_columns"
  by (simp add: reorder_def columns_foldl_reorder)











lemma columns_fetch:
  "\<not> is_empty (fetch_data_from_gsheets lib ws) \<Longrightarrow>
   columns (fetch_data_from_gsheets lib ws) = expected_db_columns"
  by (auto simp: fetch_data_from_gsheets_def fetch_try_def Let_def is_empty_def empty_frame_def
      columns_reorder split: worksheet.splits if_splits)


lemma main_no_fault:
  "\<not> is_empty (fetch_data_from_gsheets lib ws) \<Longrightarrow>
   main lib (Some ws) None d =
     d(''sales_data'' \<mapsto> data_to_insert (fetch_data_from_gsheets lib ws) expected_db_columns)"
  by (simp add: main_def Let_def store_insert_no_fault columns_fetch)

subsection \<open>Running the script twice\<close>

text \<open>
  Claim C6. Two runs on the same source, neither of which fails, leave the database
  exactly as one run does. A run that fetches at least one record replaces the table
  by the tuples built from the fetched records, whatever the table held before.
\<close>

theorem sync_twice:
  "main lib gc None (main lib gc None d) = main lib gc None d \<and>
   (\<not> is_empty (fetch_data_from_gsheets lib ws) \<longrightarrow>
      main lib (Some ws) None d =
        d(''sales_data'' \<mapsto> data_to_insert (fetch_data_from_gsheets lib ws) expected_db_columns))"
  by (cases gc) (simp_all add: main_def Let_def store_insert_no_fault columns_fetch)

theorem sync_twice_witness:
  "main ref_pandas (Some (Records two_row_sheet)) None
     (main ref_pandas (Some (Records two_row_sheet)) None old_db) =
   main ref_pandas (Some (Records two_row_sheet)) None old_db \<and>
   main ref_pandas (Some (Records two_row_sheet)) None old_db ''sales_data'' =
     Some [tuple_of [(''name'', Str ''Ann''), (''email'', Str ''ann@x.com''), (''sales_amount'', Num 250)],
           tuple_of [(''name'', Str ''Cy''), (''email'', Str ''cy@x.com''), (''sales_amount'', Num 0)]]"
proof -
  have len: "length (rows (fetch_data_from_gsheets ref_pandas (Records two_row_sheet))) = 2"
    by code_simp
  have cols: "columns (fetch_data_from_gsheets ref_pandas (Records two_row_sheet)) \<noteq> []"
    by code_simp
  from len cols have ne: "\<not> is_empty (fetch_data_from_gsheets ref_pandas (Records two_row_sheet))"
    by (auto simp: is_empty_def)
  have tuples: "data_to_insert (fetch_data_from_gsheets ref_pandas (Records two_row_sheet))
      expected_db_columns =
     [tuple_of [(''name'', Str ''Ann''), (''email'', Str ''ann@x.com''), (''sales_amount'', Num 250)],
      tuple_of [(''name'', Str ''Cy''), (''email'', Str ''cy@x.com''), (''sales_amount'', Num 0)]]"
    by code_simp
  note twice = sync_twice[of ref_pandas "Some (Records two_row_sheet)" old_db "Records two_row_sheet"]
  from twice have again:
    "main ref_pandas (Some (Records two_row_sheet)) None
       (main ref_pandas (Some (Records two_row_sheet)) None old_db) =
     main ref_pandas (Some (Records two_row_sheet)) None old_db"
    by (rule conjunct1)
  from twice ne have once:
    "main ref_pandas (Some (Records two_row_sheet)) None old_db =
       old_db(''sales_data'' \<mapsto> data_to_insert
         (fetch_data_from_gsheets ref_pandas (Records two_row_sheet)) expected_db_columns)"
    by blast
  show ?thesis
  proof (intro conjI)
    show "main ref_pandas (Some (Records two_row_sheet)) None
       (main ref_pandas (Some (Records two_row_sheet)) None old_db) =
     main ref_pandas (Some (Records two_row_sheet)) None old_db"
      by (rule again)
    show "main ref_pandas (Some (Records two_row_sheet)) None old_db ''sales_data'' =
     Some [tuple_of [(''name'', Str ''Ann''), (''email'', Str ''ann@x.com''), (''sales_amount'', Num 250)],
           tuple_of [(''name'', Str ''Cy''), (''email'', Str ''cy@x.com''), (''sales_amount'', Num 0)]]"
      by (simp add: once tuples)
  qed
qed

subsection \<open>The round trip\<close>




subsection \<open>The end-to-end scenario\<close>

lemma scenario_labels:
  "normalise_label ''agent'' = ''agent''"
  "normalise_label ''status'' = ''status''"
  "normalise_label ''sales_amount'' = ''sales_amount''"
  "normalise_label ''first_call_date'' = ''first_call_date''"
  "normalise_label ''email'' = ''email''"
  by code_simp+

lemma scenario_strings:
  "strip_currency ''$1,000'' = ''1000''"
  "strip_currency [] = []"
  "strip ''a@x.com'' = ''a@x.com''"
  "strip ''A'' = ''A''"
  "strip ''answered call'' = ''answered call''"
  "strip [] = []"
  by code_simp+

lemma expected_label_each:
  "normalise_label ''name'' = ''name''"
  "normalise_label ''number'' = ''number''"
  "normalise_label ''country_name'' = ''country_name''"
  "normalise_label ''remarks'' = ''remarks''"
  "normalise_label ''notes_from_call'' = ''notes_from_call''"
  "normalise_label ''post_call_email'' = ''post_call_email''"
  "normalise_label ''tags'' = ''tags''"
  "normalise_label ''interested_category'' = ''interested_category''"
  "normalise_label ''sales_status'' = ''sales_status''"
  "normalise_label ''next_follow_up_time'' = ''next_follow_up_time''"
  "normalise_label ''next_follow_up_date'' = ''next_follow_up_date''"
  "normalise_label ''Calling_Stamp'' = ''calling_stamp''"
  "normalise_label ''Signup_Date'' = ''signup_date''"
  by code_simp+

lemma fetch_scenario:
  assumes "parse_numeric lib (Str ''1000'') = Some 1000"
      and "parse_datetime lib (Str ''2024-01-01'') = Some (Date 2024 1 1)"
  shows "data_to_insert (fetch_data_from_gsheets lib (Records scenario_sheet)) expected_db_columns =
     [tuple_of [(''email'', Str ''a@x.com''), (''agent'', Str ''A''),
                (''first_call_date'', Day (Date 2024 1 1)), (''status'', Str ''answered call''),
                (''sales_amount'', Num 1000)]]"
  using assms
  by (simp add: fetch_data_from_gsheets_def fetch_try_def Let_def prepare_def scenario_sheet_def
      rename_columns_def scenario_labels rename_if_present_def has_col_def clean_sales_amount_def
      date_cols_from_sheet_def parse_date_col_def assign_def record_of_def scenario_strings
      to_numeric_fillna_def to_date_def select_rows_def email_admitted_def notna_def
      reorder_def expected_db_columns_def reorder_step_def
      default_value_def data_to_insert_def processed_value_def tuple_of_def)

lemma status_answered_call: "standardise_status lib (Str ''answered call'') = Str ''Answered''"
proof -
  have "replace_values [(''Invalid Number'', ''Invalid number''), (''Not Answered'', ''Not answered'')]
       (title_if_notna (map_dict status_mapping (lower (strip ''answered call'')))) = Str ''Answered''"
    by code_simp
  then show ?thesis by (simp add: standardise_status_def vocabulary_key_def)
qed

lemma load_scenario:
  assumes "parse_datetime lib (Day (Date 2024 1 1)) = Some (Date 2024 1 1)"
  shows "map (\<lambda>r. (r ''status'', r ''sales_amount'', r ''is_initial_call''))
     (rows (load_full_sales_data_from_db lib today
        (Some [tuple_of [(''email'', Str ''a@x.com''), (''agent'', Str ''A''),
                (''first_call_date'', Day (Date 2024 1 1)), (''status'', Str ''answered call''),
                (''sales_amount'', Num 1000)]]) expected_db_columns))
   = [(Str ''Answered'', Num 1000, Num 1)]"
  using assms
  by (simp add: load_full_sales_data_from_db_def post_process_def DataFrame_def tuple_of_def
      expected_db_columns_def rename_columns_def scenario_labels expected_label_each
      add_initial_call_def convert_sales_amount_def follow_up_date_db_columns_def
      parse_follow_up_col_def standardise_status_col_def standardise_sales_status_col_def
      add_country_group_def add_total_follow_up_calls_def count_follow_up_col_def
      finish_follow_up_date_def ensure_email_agent_def has_col_def assign_def Let_def
      to_timestamp_def to_numeric_fillna_def notna_def status_answered_call)

lemma is_empty_fetch:
  "is_empty (fetch_data_from_gsheets lib ws) = (rows (fetch_data_from_gsheets lib ws) = [])"
  by (auto simp: is_empty_def fetch_data_from_gsheets_def fetch_try_def Let_def empty_frame_def
      columns_reorder expected_db_columns_def split: worksheet.splits if_splits)

text \<open>
  Claim C1, as the code has it. For conversions that read \<^verbatim>\<open>1000\<close> as the number 1000
  and \<^verbatim>\<open>2024-01-01\<close> as that date, a run on the two-row sheet, whatever the database
  held, stores exactly one tuple (the second record has an empty email): it carries the
  status as the sheet has it, \<^verbatim>\<open>answered call\<close>, the amount 1000 and the first call
  date, and no column \<^verbatim>\<open>is_initial_call\<close> exists in the table. The record that the
  dashboard loads from this tuple has the status \<^verbatim>\<open>Answered\<close>, the amount 1000 and
  \<^verbatim>\<open>is_initial_call = 1\<close>.
\<close>

theorem scenario_end_to_end:
  assumes "parse_numeric lib (Str ''1000'') = Some 1000"
      and "parse_datetime lib (Str ''2024-01-01'') = Some (Date 2024 1 1)"
      and "parse_datetime lib (Day (Date 2024 1 1)) = Some (Date 2024 1 1)"
  shows "let after = main lib (Some (Records scenario_sheet)) None d;
             loaded = load_full_sales_data_from_db lib today (select_sales_data after)
                        expected_db_columns
         in after ''sales_data'' =
              Some [tuple_of [(''email'', Str ''a@x.com''), (''agent'', Str ''A''),
                      (''first_call_date'', Day (Date 2024 1 1)),
                      (''status'', Str ''answered call''), (''sales_amount'', Num 1000)]] \<and>
            map (\<lambda>r. (r ''status'', r ''sales_amount'', r ''is_initial_call'')) (rows loaded) =
              [(Str ''Answered'', Num 1000, Num 1)]"
proof -
  note tuples = fetch_scenario[OF assms(1,2)]
  have "rows (fetch_data_from_gsheets lib (Records scenario_sheet)) \<noteq> []"
    using tuples by (auto simp: data_to_insert_def)
  then have "\<not> is_empty (fetch_data_from_gsheets lib (Records scenario_sheet))"
    by (simp add: is_empty_fetch)
  from main_no_fault[OF this]
  have after: "main lib (Some (Records scenario_sheet)) None d =
      d(''sales_data'' \<mapsto> [tuple_of [(''email'', Str ''a@x.com''), (''agent'', Str ''A''),
                      (''first_call_date'', Day (Date 2024 1 1)),
                      (''status'', Str ''answered call''), (''sales_amount'', Num 1000)]])"
    by (simp only: tuples)
  show ?thesis
    unfolding Let_def after select_sales_data_def
    using load_scenario[OF assms(3), of today] by simp
qed

theorem scenario_end_to_end_witness:
  "main ref_pandas (Some (Records scenario_sheet)) None old_db ''sales_data'' =
     Some [tuple_of [(''email'', Str ''a@x.com''), (''agent'', Str ''A''),
             (''first_call_date'', Day (Date 2024 1 1)),
             (''status'', Str ''answered call''), (''sales_amount'', Num 1000)]] \<and>
   map (\<lambda>r. (r ''status'', r ''sales_amount'', r ''is_initial_call''))
     (rows (load_full_sales_data_from_db ref_pandas (Date 2024 2 1)
        (select_sales_data (main ref_pandas (Some (Records scenario_sheet)) None old_db))
        expected_db_columns)) =
     [(Str ''Answered'', Num 1000, Num 1)]"
proof -
  have a: "parse_numeric ref_pandas (Str ''1000'') = Some 1000"
    by code_simp
  have b: "parse_datetime ref_pandas (Str ''2024-01-01'') = Some (Date 2024 1 1)"
    by code_simp
  have c: "parse_datetime ref_pandas (Day (Date 2024 1 1)) = Some (Date 2024 1 1)"
    by code_simp
  show ?thesis
    using scenario_end_to_end[OF a b c, of old_db "Date 2024 2 1"]
    by (simp only: Let_def)
qed

text \<open>
  The claim as it is worded fails: the stored tuple does not have the status
  \<^verbatim>\<open>Answered\<close>, and the table has no column \<^verbatim>\<open>is_initial_call\<close>.
\<close>

theorem stored_status_is_raw_counterexample:
  "map (stored_field ''status'')
     (the (main ref_pandas (Some (Records scenario_sheet)) None Map.empty ''sales_data''))
     = [Str ''answered call''] \<and>
   map (stored_field ''status'')
     (the (main ref_pandas (Some (Records scenario_sheet)) None Map.empty ''sales_data''))
     \<noteq> [Str ''Answered''] \<and>
   ''is_initial_call'' \<notin> set expected_db_columns"
  by code_simp

end
